theory Spec2Isabelle
  imports Complex_Main "HOL-Library.Word" "HOL-Library.Sublist"
begin

text \<open>
  The single-file component \<open>src/App.vue\<close>: its settings store, the client of the model
  catalog (\<open>loadModels\<close>), the model filter (\<open>filteredModels\<close>) and the completion client
  (\<open>generateDescription\<close>), over the strings, values and exceptions of the language they
  are written in.
\<close>

section \<open>Strings and values of the host language\<close>

text \<open>
  A string of the source is a finite sequence of 16-bit code units; \<open>length\<close>, \<open>trim\<close>,
  \<open>includes\<close> and \<open>replace\<close> all work on code units. ASCII literals of the source are
  written with \<open>js\<close>; the Cyrillic messages are listed code unit by code unit.
\<close>

type_synonym code_unit = "16 word"
type_synonym jsstring = "code_unit list"

definition js :: "string \<Rightarrow> jsstring" where
  "js s = map (\<lambda>c. of_nat (of_char c)) s"

text \<open>
  \<open>String.prototype.trim\<close> strips the code units of WhiteSpace and LineTerminator
  from both ends: TAB, LF, VT, FF, CR, SP, NBSP, U+1680, U+2000 .. U+200A, U+2028, U+2029,
  U+202F, U+205F, U+3000 and U+FEFF.
\<close>

definition is_white_space :: "code_unit \<Rightarrow> bool" where
  "is_white_space c =
     (c = 0x9 \<or> c = 0xA \<or> c = 0xB \<or> c = 0xC \<or> c = 0xD \<or> c = 0x20 \<or> c = 0xA0 \<or>
      c = 0x1680 \<or> (0x2000 \<le> c \<and> c \<le> 0x200A) \<or> c = 0x2028 \<or> c = 0x2029 \<or>
      c = 0x202F \<or> c = 0x205F \<or> c = 0x3000 \<or> c = 0xFEFF)"

definition trim :: "jsstring \<Rightarrow> jsstring" where
  "trim s = rev (dropWhile is_white_space (rev (dropWhile is_white_space s)))"

subsection \<open>Searching and replacing\<close>

text \<open>
  \<open>StringIndexOf(string, searchValue, 0)\<close>: the least index at which \<open>searchValue\<close>
  occurs in \<open>string\<close>, \<open>None\<close> for the source's \<open>-1\<close>. \<open>String.prototype.includes\<close> is its test.
\<close>

fun stringIndexOf :: "'a list \<Rightarrow> 'a list \<Rightarrow> nat option" where
  "stringIndexOf [] searchValue = (if searchValue = [] then Some 0 else None)"
| "stringIndexOf (c # string) searchValue =
     (if prefix searchValue (c # string) then Some 0
      else map_option Suc (stringIndexOf string searchValue))"

definition js_includes :: "'a list \<Rightarrow> 'a list \<Rightarrow> bool" where
  "js_includes string searchString = (stringIndexOf string searchString \<noteq> None)"

definition is_digit :: "code_unit \<Rightarrow> bool" where
  "is_digit c = (0x30 \<le> c \<and> c \<le> 0x39)"

text \<open>
  \<open>GetSubstitution(matched, str, position, captures, namedCaptures, replacementTemplate)\<close>
  of the language standard, for the call that \<open>replace\<close> makes when the pattern is a string:
  \<open>captures\<close> is empty and \<open>namedCaptures\<close> is undefined. The template is read from the
  left; \<open>$$\<close> gives \<open>$\<close>, \<open>$`\<close> the text before the match, \<open>$&\<close> the match, \<open>$'\<close> the
  text after it. With no captures a reference \<open>$n\<close> or \<open>$nn\<close> stands for itself (of two
  digits both are consumed only when they denote index 0, otherwise one), and so does
  \<open>$<\<close>. Code units: \<open>$\<close> 0x24, \<open>`\<close> 0x60, \<open>&\<close> 0x26, \<open>'\<close> 0x27, \<open><\<close> 0x3C.
\<close>

fun getSubstitution :: "jsstring \<Rightarrow> jsstring \<Rightarrow> nat \<Rightarrow> jsstring \<Rightarrow> jsstring" where
  "getSubstitution matched str position [] = []"
| "getSubstitution matched str position [c] = [c]"
| "getSubstitution matched str position (c # d # rest) =
     (if c = 0x24 \<and> d = 0x24 then 0x24 # getSubstitution matched str position rest
      else if c = 0x24 \<and> d = 0x60 then
        take position str @ getSubstitution matched str position rest
      else if c = 0x24 \<and> d = 0x26 then
        matched @ getSubstitution matched str position rest
      else if c = 0x24 \<and> d = 0x27 then
        drop (min (position + length matched) (length str)) str
          @ getSubstitution matched str position rest
      else if c = 0x24 \<and> is_digit d then
        (case rest of
           [] \<Rightarrow> [c, d]
         | e # rest' \<Rightarrow>
             if is_digit e \<and> d = 0x30 \<and> e = 0x30
             then [c, d, e] @ getSubstitution matched str position rest'
             else [c, d] @ getSubstitution matched str position (e # rest'))
      else if c = 0x24 \<and> d = 0x3C then [c, d] @ getSubstitution matched str position rest
      else c # getSubstitution matched str position (d # rest))"

text \<open>
  \<open>String.prototype.replace(searchValue, replaceValue)\<close> with two strings: only the
  first occurrence is replaced, by the expansion of \<open>replaceValue\<close>.
\<close>

definition js_replace :: "jsstring \<Rightarrow> jsstring \<Rightarrow> jsstring \<Rightarrow> jsstring" where
  "js_replace string searchString replaceValue =
     (case stringIndexOf string searchString of
        None \<Rightarrow> string
      | Some position \<Rightarrow>
          take position string
            @ getSubstitution searchString string position replaceValue
            @ drop (position + length searchString) string)"

subsection \<open>Values\<close>

text \<open>
  The values a parsed JSON body can hold, and \<open>undefined\<close>. A number is the rational
  that the parsed double denotes (JSON has neither NaN nor infinities). An object lists
  its own properties; the first entry of a name is the property.
\<close>

datatype jsval =
    Undefined
  | Null
  | Bool bool
  | Num rat
  | Str jsstring
  | Arr "jsval list"
  | Obj "(jsstring \<times> jsval) list"

datatype js_error =
    TypeError
  | FetchRejected
  | JsonRejected
  | HttpError nat

text \<open>Truthiness, as \<open>!\<close>, \<open>||\<close>, \<open>&&\<close> and \<open>if\<close> test it.\<close>

fun truthy :: "jsval \<Rightarrow> bool" where
  "truthy Undefined = False"
| "truthy Null = False"
| "truthy (Bool b) = b"
| "truthy (Num r) = (r \<noteq> 0)"
| "truthy (Str s) = (s \<noteq> [])"
| "truthy (Arr xs) = True"
| "truthy (Obj kvs) = True"

text \<open>
  \<open>v.k\<close> for a property name \<open>k\<close> that no prototype defines (\<open>data\<close>, \<open>choices\<close>,
  \<open>message\<close>, \<open>content\<close>, \<open>id\<close>, \<open>name\<close>, \<open>description\<close>, \<open>context_length\<close>,
  \<open>pricing\<close>): reading from \<open>undefined\<close> or \<open>null\<close> throws a TypeError, an object gives
  its property or \<open>undefined\<close>, any other value gives \<open>undefined\<close>.
\<close>

fun get_prop :: "jsval \<Rightarrow> jsstring \<Rightarrow> js_error + jsval" where
  "get_prop Undefined k = Inl TypeError"
| "get_prop Null k = Inl TypeError"
| "get_prop (Obj kvs) k = Inr (case map_of kvs k of None \<Rightarrow> Undefined | Some v \<Rightarrow> v)"
| "get_prop v k = Inr Undefined"

text \<open>
  \<open>v[0]\<close>: the first element of an array, the first code unit of a string (as a string),
  the property \<open>0\<close> of an object; \<open>undefined\<close> where there is none.
\<close>

fun get_index0 :: "jsval \<Rightarrow> js_error + jsval" where
  "get_index0 Undefined = Inl TypeError"
| "get_index0 Null = Inl TypeError"
| "get_index0 (Arr xs) = Inr (case xs of [] \<Rightarrow> Undefined | x # _ \<Rightarrow> x)"
| "get_index0 (Str s) = Inr (case s of [] \<Rightarrow> Undefined | c # _ \<Rightarrow> Str [c])"
| "get_index0 (Obj kvs) = Inr (case map_of kvs (js ''0'') of None \<Rightarrow> Undefined | Some v \<Rightarrow> v)"
| "get_index0 v = Inr Undefined"

text \<open>Sequencing of steps that may throw: the first exception ends the evaluation.\<close>

definition and_then :: "js_error + 'a \<Rightarrow> ('a \<Rightarrow> js_error + 'b) \<Rightarrow> js_error + 'b" where
  "and_then r f = (case r of Inl e \<Rightarrow> Inl e | Inr v \<Rightarrow> f v)"

section \<open>Settings store\<close>

text \<open>
  \<open>localStorage\<close> maps keys to strings; \<open>getItem\<close> of an absent key is \<open>null\<close>
  (here \<open>None\<close>).
\<close>

type_synonym storage = "jsstring \<rightharpoonup> jsstring"

definition getItem :: "storage \<Rightarrow> jsstring \<Rightarrow> jsstring option" where
  "getItem store k = store k"

definition setItem :: "jsstring \<Rightarrow> jsstring \<Rightarrow> storage \<Rightarrow> storage" where
  "setItem k v store = store(k \<mapsto> v)"

definition removeItem :: "jsstring \<Rightarrow> storage \<Rightarrow> storage" where
  "removeItem k store = store(k := None)"

text \<open>
  \<^verbatim>\<open>
  const saveApiKey = (key: string) => {
    if (key.trim()) { localStorage.setItem('openrouter_api_key', key) }
    else { localStorage.removeItem('openrouter_api_key') }
  }
  \<close>
  A string is truthy iff it is not empty.
\<close>

definition saveApiKey :: "jsstring \<Rightarrow> storage \<Rightarrow> storage" where
  "saveApiKey key store =
     (if trim key \<noteq> [] then setItem (js ''openrouter_api_key'') key store
      else removeItem (js ''openrouter_api_key'') store)"

definition saveSelectedModel :: "jsstring \<Rightarrow> storage \<Rightarrow> storage" where
  "saveSelectedModel modelId store = setItem (js ''selected_model'') modelId store"

definition saveSystemPrompt :: "jsstring \<Rightarrow> storage \<Rightarrow> storage" where
  "saveSystemPrompt prompt store = setItem (js ''system_prompt'') prompt store"

section \<open>Application state\<close>

text \<open>
  A model descriptor as \<open>loadModels\<close> builds it. The interface declares \<open>id\<close> and
  \<open>name\<close> strings and the rest optional, but the fields are copied from a body of type
  \<open>any\<close>, so each holds whatever value the body had (\<open>undefined\<close> when absent).
\<close>

record Model =
  model_id :: jsval
  name :: jsval
  description :: jsval
  context_length :: jsval
  pricing :: jsval

text \<open>The refs of the component, and the browser's local store.\<close>

record app_state =
  inputText :: jsstring
  outputText :: jsval
  isLoading :: bool
  apiKey :: jsstring
  selectedModel :: jsstring
  modelFilter :: jsstring
  showModelDropdown :: bool
  availableModels :: "Model list"
  isLoadingModels :: bool
  showSettings :: bool
  systemPrompt :: jsstring
  localStorage :: storage

definition defaultPrompt :: jsstring where
  "defaultPrompt =
    [0x41F, 0x440, 0x43E, 0x430, 0x43D, 0x430, 0x43B, 0x438, 0x437, 0x438, 0x440, 0x443,
     0x439, 0x20, 0x441, 0x43B, 0x435, 0x434, 0x443, 0x44E, 0x449, 0x438, 0x439, 0x20,
     0x442, 0x435, 0x43A, 0x441, 0x442, 0x20, 0x438, 0x20, 0x441, 0x43E, 0x437, 0x434,
     0x430, 0x439, 0x20, 0x43E, 0x43F, 0x438, 0x441, 0x430, 0x43D, 0x438, 0x435, 0x20,
     0x432, 0x20, 0x441, 0x442, 0x438, 0x43B, 0x435, 0x20, 0x77, 0x69, 0x6B, 0x69,
     0x20, 0x432, 0x20, 0x43E, 0x434, 0x43D, 0x43E, 0x43C, 0x20, 0x43F, 0x440, 0x435,
     0x434, 0x43B, 0x43E, 0x436, 0x435, 0x43D, 0x438, 0x438, 0x2E, 0x20, 0x41A, 0x430,
     0x436, 0x434, 0x44B, 0x439, 0x20, 0x44D, 0x43B, 0x435, 0x43C, 0x435, 0x43D, 0x442,
     0x20, 0x434, 0x43E, 0x43B, 0x436, 0x435, 0x43D, 0x20, 0x441, 0x43E, 0x434, 0x435,
     0x440, 0x436, 0x430, 0x442, 0x44C, 0x20, 0x43D, 0x430, 0x437, 0x432, 0x430, 0x43D,
     0x438, 0x435, 0x2C, 0x20, 0x43A, 0x440, 0x430, 0x442, 0x43A, 0x43E, 0x435, 0x20,
     0x43E, 0x43F, 0x438, 0x441, 0x430, 0x43D, 0x438, 0x435, 0x20, 0x438, 0x20, 0x441,
     0x441, 0x44B, 0x43B, 0x43A, 0x443, 0x20, 0x28, 0x435, 0x441, 0x43B, 0x438, 0x20,
     0x435, 0x441, 0x442, 0x44C, 0x29, 0x2E, 0xA, 0x424, 0x43E, 0x440, 0x43C, 0x430,
     0x442, 0x20, 0x43E, 0x442, 0x432, 0x435, 0x442, 0x430, 0x3A, 0xA, 0x2D, 0x20,
     0x41D, 0x430, 0x437, 0x432, 0x430, 0x43D, 0x438, 0x435, 0x20, 0x2014, 0x20, 0x43A,
     0x440, 0x430, 0x442, 0x43A, 0x43E, 0x435, 0x20, 0x43E, 0x43F, 0x438, 0x441, 0x430,
     0x43D, 0x438, 0x435, 0x2E, 0x20, 0x441, 0x441, 0x44B, 0x43B, 0x43A, 0x430, 0xA,
     0xA, 0x41F, 0x440, 0x438, 0x43C, 0x435, 0x440, 0x3A, 0xA, 0x2D, 0x20, 0x41,
     0x63, 0x65, 0x20, 0x2014, 0x20, 0x433, 0x43E, 0x43B, 0x43E, 0x441, 0x43E, 0x432,
     0x43E, 0x439, 0x20, 0x43F, 0x43E, 0x43C, 0x43E, 0x449, 0x43D, 0x438, 0x43A, 0x20,
     0x43D, 0x430, 0x20, 0x431, 0x430, 0x437, 0x435, 0x20, 0x441, 0x43E, 0x431, 0x441,
     0x442, 0x432, 0x435, 0x43D, 0x43D, 0x43E, 0x439, 0x20, 0x43C, 0x43E, 0x434, 0x435,
     0x43B, 0x438, 0x2C, 0x20, 0x441, 0x43F, 0x43E, 0x441, 0x43E, 0x431, 0x43D, 0x44B,
     0x439, 0x20, 0x443, 0x43F, 0x440, 0x430, 0x432, 0x43B, 0x44F, 0x442, 0x44C, 0x20,
     0x43A, 0x43E, 0x43C, 0x43F, 0x44C, 0x44E, 0x442, 0x435, 0x440, 0x43E, 0x43C, 0x20,
     0x441, 0x20, 0x432, 0x44B, 0x441, 0x43E, 0x43A, 0x43E, 0x439, 0x20, 0x441, 0x43A,
     0x43E, 0x440, 0x43E, 0x441, 0x442, 0x44C, 0x44E, 0x20, 0x438, 0x20, 0x442, 0x43E,
     0x447, 0x43D, 0x43E, 0x441, 0x442, 0x44C, 0x44E, 0x20, 0x432, 0x44B, 0x43F, 0x43E,
     0x43B, 0x43D, 0x435, 0x43D, 0x438, 0x44F, 0x20, 0x43A, 0x43E, 0x43C, 0x430, 0x43D,
     0x434, 0x2E, 0x20, 0x68, 0x74, 0x74, 0x70, 0x73, 0x3A, 0x2F, 0x2F, 0x67,
     0x65, 0x6E, 0x65, 0x72, 0x61, 0x6C, 0x61, 0x67, 0x65, 0x6E, 0x74, 0x73,
     0x2E, 0x63, 0x6F, 0x6D, 0x2F, 0x61, 0x63, 0x65, 0x2F, 0xA, 0xA, 0x422,
     0x435, 0x43A, 0x441, 0x442, 0x20, 0x434, 0x43B, 0x44F, 0x20, 0x430, 0x43D, 0x430,
     0x43B, 0x438, 0x437, 0x430, 0x3A, 0x20, 0x7B, 0x69, 0x6E, 0x70, 0x75, 0x74,
     0x7D]"

text \<open>\<open>localStorage.getItem(k) || d\<close>: an absent or empty entry gives the default.\<close>

definition getItem_or :: "storage \<Rightarrow> jsstring \<Rightarrow> jsstring \<Rightarrow> jsstring" where
  "getItem_or store k d =
     (case getItem store k of None \<Rightarrow> d | Some v \<Rightarrow> if v \<noteq> [] then v else d)"

definition initial_state :: "storage \<Rightarrow> app_state" where
  "initial_state store =
     \<lparr>inputText = [],
      outputText = Str [],
      isLoading = False,
      apiKey = getItem_or store (js ''openrouter_api_key'') [],
      selectedModel = getItem_or store (js ''selected_model'') (js ''openai/gpt-4o-mini''),
      modelFilter = [],
      showModelDropdown = False,
      availableModels = [],
      isLoadingModels = False,
      showSettings = False,
      systemPrompt = getItem_or store (js ''system_prompt'') defaultPrompt,
      localStorage = store\<rparr>"

subsection \<open>Effects and the network\<close>

record request =
  req_url :: jsstring
  req_method :: jsstring
  req_headers :: "(jsstring \<times> jsstring) list"
  req_body :: jsval

datatype effect =
    Alert jsstring
  | Fetch request
  | ConsoleError jsstring js_error

text \<open>
  What a \<open>fetch\<close> comes to: the promise is rejected (no response), or there is a response
  with a status and a body; the body is \<open>None\<close> when \<open>response.json()\<close> rejects it.
\<close>

datatype fetch_outcome =
    Rejected
  | Responded nat "jsval option"

definition response_ok :: "nat \<Rightarrow> bool" where
  "response_ok status = (200 \<le> status \<and> status \<le> 299)"

text \<open>
  An async function runs to its first \<open>await\<close> and is resumed with the outcome of what it
  waits for. \<open>Returned\<close>: it finished without waiting. \<open>Awaiting\<close>: it issued the request
  and is suspended in the given state.
\<close>

datatype suspension =
    Returned app_state "effect list"
  | Awaiting request app_state

text \<open>
  \<open>try { body } catch (error) { handler } finally { final }\<close> over the state. Both
  functions below throw only before their first assignment inside \<open>try\<close>, so a throwing
  body leaves the state as it found it. The result carries the exception that leaves
  the statement, if any.
\<close>

definition try_catch_finally ::
  "(app_state \<Rightarrow> js_error + app_state) \<Rightarrow>
   (js_error \<Rightarrow> app_state \<Rightarrow> js_error + app_state \<times> effect list) \<Rightarrow>
   (app_state \<Rightarrow> app_state) \<Rightarrow> app_state \<Rightarrow> js_error option \<times> app_state \<times> effect list" where
  "try_catch_finally body handler final st =
     (case body st of
        Inr st' \<Rightarrow> (None, final st', [])
      | Inl err \<Rightarrow>
          (case handler err st of
             Inr (st', effs) \<Rightarrow> (None, final st', effs)
           | Inl err' \<Rightarrow> (Some err', final st, [])))"

section \<open>Model catalog client\<close>

definition fallback_models :: "Model list" where
  "fallback_models =
     [\<lparr>model_id = Str (js ''openai/gpt-4o-mini''), name = Str (js ''GPT-4o Mini''),
       description = Undefined, context_length = Undefined, pricing = Undefined\<rparr>,
      \<lparr>model_id = Str (js ''anthropic/claude-sonnet-4''), name = Str (js ''Claude Sonnet 4''),
       description = Undefined, context_length = Undefined, pricing = Undefined\<rparr>]"

definition models_request :: request where
  "models_request =
     \<lparr>req_url = js ''https://openrouter.ai/api/v1/models'',
      req_method = js ''GET'',
      req_headers = [(js ''Content-Type'', js ''application/json'')],
      req_body = Undefined\<rparr>"

definition load_error_message :: jsstring where
  "load_error_message =
    [0x41E, 0x448, 0x438, 0x431, 0x43A, 0x430, 0x20, 0x437, 0x430, 0x433, 0x440, 0x443,
     0x437, 0x43A, 0x438, 0x20, 0x43C, 0x43E, 0x434, 0x435, 0x43B, 0x435, 0x439, 0x3A]"

text \<open>
  The callback of \<open>data.data.map\<close>:
  \<^verbatim>\<open>
  (model: any) => ({ id: model.id, name: model.name || model.id,
    description: model.description, context_length: model.context_length,
    pricing: model.pricing })
  \<close>
\<close>

definition map_model :: "jsval \<Rightarrow> js_error + Model" where
  "map_model model =
     and_then (get_prop model (js ''id'')) (\<lambda>i.
     and_then (get_prop model (js ''name'')) (\<lambda>n.
     and_then (get_prop model (js ''description'')) (\<lambda>d.
     and_then (get_prop model (js ''context_length'')) (\<lambda>c.
     and_then (get_prop model (js ''pricing'')) (\<lambda>p.
       Inr \<lparr>model_id = i, name = (if truthy n then n else i),
            description = d, context_length = c, pricing = p\<rparr>)))))"

text \<open>\<open>Array.prototype.map\<close> with a callback that may throw.\<close>

fun map_js :: "('a \<Rightarrow> js_error + 'b) \<Rightarrow> 'a list \<Rightarrow> js_error + 'b list" where
  "map_js f [] = Inr []"
| "map_js f (x # xs) =
     and_then (f x) (\<lambda>y. and_then (map_js f xs) (\<lambda>ys. Inr (y # ys)))"

text \<open>
  The \<open>try\<close> block of \<open>loadModels\<close>, after the fetch has come to \<open>outcome\<close>:
  \<^verbatim>\<open>
  if (response.ok) {
    const data = await response.json()
    availableModels.value = data.data.map(...)
  }
  \<close>
  Only an array has \<open>map\<close>; calling it on anything else throws a TypeError.
\<close>

definition loadModels_try :: "fetch_outcome \<Rightarrow> app_state \<Rightarrow> js_error + app_state" where
  "loadModels_try outcome st =
     (case outcome of
        Rejected \<Rightarrow> Inl FetchRejected
      | Responded status body \<Rightarrow>
          if response_ok status then
            (case body of
               None \<Rightarrow> Inl JsonRejected
             | Some data \<Rightarrow>
                 and_then (get_prop data (js ''data'')) (\<lambda>d.
                   case d of
                     Arr entries \<Rightarrow>
                       and_then (map_js map_model entries) (\<lambda>ms.
                         Inr (st\<lparr>availableModels := ms\<rparr>))
                   | _ \<Rightarrow> Inl TypeError))
          else Inr st)"

definition loadModels_catch ::
  "js_error \<Rightarrow> app_state \<Rightarrow> js_error + app_state \<times> effect list" where
  "loadModels_catch err st =
     Inr (st\<lparr>availableModels := fallback_models\<rparr>, [ConsoleError load_error_message err])"

definition loadModels_begin :: "app_state \<Rightarrow> suspension" where
  "loadModels_begin st = Awaiting models_request (st\<lparr>isLoadingModels := True\<rparr>)"

definition loadModels_resume ::
  "fetch_outcome \<Rightarrow> app_state \<Rightarrow> js_error option \<times> app_state \<times> effect list" where
  "loadModels_resume outcome =
     try_catch_finally (loadModels_try outcome) loadModels_catch
       (\<lambda>st. st\<lparr>isLoadingModels := False\<rparr>)"

text \<open>
  A whole run of \<open>loadModels\<close> with nothing else running in between; \<open>net\<close> is what the
  network makes of a request.
\<close>

definition loadModels ::
  "(request \<Rightarrow> fetch_outcome) \<Rightarrow> app_state \<Rightarrow> js_error option \<times> app_state \<times> effect list" where
  "loadModels net st =
     (case loadModels_begin st of
        Returned st' effs \<Rightarrow> (None, st', effs)
      | Awaiting req st' \<Rightarrow>
          (case loadModels_resume (net req) st' of
             (thrown, st'', effs) \<Rightarrow> (thrown, st'', Fetch req # effs)))"

section \<open>Model filter\<close>

text \<open>
  \<open>toLowerCase\<close> is the language's own and stays a parameter. \<open>v.toLowerCase()\<close> is
  defined on strings only; on any other value the call throws a TypeError.
\<close>

definition to_lower :: "(jsstring \<Rightarrow> jsstring) \<Rightarrow> jsval \<Rightarrow> js_error + jsstring" where
  "to_lower toLowerCase v = (case v of Str s \<Rightarrow> Inr (toLowerCase s) | _ \<Rightarrow> Inl TypeError)"

text \<open>
  The predicate of the filter, with \<open>||\<close> and \<open>&&\<close> evaluated from the left and only as
  far as needed:
  \<^verbatim>\<open>
  model.name.toLowerCase().includes(filter) ||
  model.id.toLowerCase().includes(filter) ||
  (model.description && model.description.toLowerCase().includes(filter))
  \<close>
\<close>

definition model_matches ::
  "(jsstring \<Rightarrow> jsstring) \<Rightarrow> jsstring \<Rightarrow> Model \<Rightarrow> js_error + bool" where
  "model_matches toLowerCase filter_str model =
     and_then (to_lower toLowerCase (name model)) (\<lambda>n.
       if js_includes n filter_str then Inr True
       else and_then (to_lower toLowerCase (model_id model)) (\<lambda>i.
         if js_includes i filter_str then Inr True
         else if truthy (description model) then
           and_then (to_lower toLowerCase (description model)) (\<lambda>d.
             Inr (js_includes d filter_str))
         else Inr False))"

text \<open>\<open>Array.prototype.filter\<close> with a predicate that may throw.\<close>

fun filter_js :: "('a \<Rightarrow> js_error + bool) \<Rightarrow> 'a list \<Rightarrow> js_error + 'a list" where
  "filter_js p [] = Inr []"
| "filter_js p (x # xs) =
     and_then (p x) (\<lambda>b. and_then (filter_js p xs) (\<lambda>ys. Inr (if b then x # ys else ys)))"

text \<open>
  \<^verbatim>\<open>
  const filteredModels = computed(() => {
    if (!modelFilter.value) return availableModels.value
    const filter = modelFilter.value.toLowerCase()
    return availableModels.value.filter(model => ...)
  })
  \<close>
\<close>

definition filteredModels :: "(jsstring \<Rightarrow> jsstring) \<Rightarrow> app_state \<Rightarrow> js_error + Model list" where
  "filteredModels toLowerCase st =
     (if modelFilter st = [] then Inr (availableModels st)
      else filter_js (model_matches toLowerCase (toLowerCase (modelFilter st)))
             (availableModels st))"

section \<open>Completion client\<close>

definition validation_message :: jsstring where
  "validation_message =
    [0x41F, 0x43E, 0x436, 0x430, 0x43B, 0x443, 0x439, 0x441, 0x442, 0x430, 0x2C, 0x20,
     0x432, 0x432, 0x435, 0x434, 0x438, 0x442, 0x435, 0x20, 0x442, 0x435, 0x43A, 0x441,
     0x442, 0x20, 0x438, 0x20, 0x41, 0x50, 0x49, 0x20, 0x43A, 0x43B, 0x44E, 0x447]"

definition failure_message :: jsstring where
  "failure_message =
    [0x41E, 0x448, 0x438, 0x431, 0x43A, 0x430, 0x20, 0x43F, 0x440, 0x438, 0x20, 0x433,
     0x435, 0x43D, 0x435, 0x440, 0x430, 0x446, 0x438, 0x438, 0x20, 0x43E, 0x43F, 0x438,
     0x441, 0x430, 0x43D, 0x438, 0x44F, 0x2E, 0x20, 0x41F, 0x440, 0x43E, 0x432, 0x435,
     0x440, 0x44C, 0x442, 0x435, 0x20, 0x41, 0x50, 0x49, 0x20, 0x43A, 0x43B, 0x44E,
     0x447, 0x20, 0x438, 0x20, 0x43F, 0x43E, 0x43F, 0x440, 0x43E, 0x431, 0x443, 0x439,
     0x442, 0x435, 0x20, 0x441, 0x43D, 0x43E, 0x432, 0x430, 0x2E]"

text \<open>
  The request of \<open>generateDescription\<close>; \<open>origin\<close> is \<open>window.location.origin\<close>. The body
  is the object handed to \<open>JSON.stringify\<close>.
\<close>

definition rendered_prompt :: "app_state \<Rightarrow> jsstring" where
  "rendered_prompt st = js_replace (systemPrompt st) (js ''{input}'') (inputText st)"

definition completion_request :: "jsstring \<Rightarrow> app_state \<Rightarrow> request" where
  "completion_request origin st =
     \<lparr>req_url = js ''https://openrouter.ai/api/v1/chat/completions'',
      req_method = js ''POST'',
      req_headers =
        [(js ''Authorization'', js ''Bearer '' @ apiKey st),
         (js ''Content-Type'', js ''application/json''),
         (js ''HTTP-Referer'', origin),
         (js ''X-Title'', js ''Link Description Generator'')],
      req_body =
        Obj [(js ''model'', Str (selectedModel st)),
             (js ''messages'',
              Arr [Obj [(js ''role'', Str (js ''user'')),
                        (js ''content'', Str (rendered_prompt st))]])]\<rparr>"

text \<open>
  Up to the first \<open>await\<close>:
  \<^verbatim>\<open>
  if (!inputText.value.trim() || !apiKey.value.trim()) {
    alert('...')
    return
  }
  isLoading.value = true
  outputText.value = ''
  try { const response = await fetch(...)
  \<close>
\<close>

definition generateDescription_begin :: "jsstring \<Rightarrow> app_state \<Rightarrow> suspension" where
  "generateDescription_begin origin st =
     (if trim (inputText st) = [] \<or> trim (apiKey st) = [] then
        Returned st [Alert validation_message]
      else
        (let st' = st\<lparr>isLoading := True, outputText := Str []\<rparr>
         in Awaiting (completion_request origin st') st'))"

text \<open>\<open>data.choices[0].message\<close> and \<open>data.choices[0].message.content\<close>.\<close>

definition first_choice_message :: "jsval \<Rightarrow> js_error + jsval" where
  "first_choice_message data =
     and_then (get_prop data (js ''choices'')) (\<lambda>choices.
     and_then (get_index0 choices) (\<lambda>choice.
       get_prop choice (js ''message'')))"

definition first_choice_content :: "jsval \<Rightarrow> js_error + jsval" where
  "first_choice_content data =
     and_then (first_choice_message data) (\<lambda>message. get_prop message (js ''content''))"

text \<open>
  The rest of the \<open>try\<close> block, once the fetch has come to \<open>outcome\<close>:
  \<^verbatim>\<open>
  if (!response.ok) { throw new Error(`HTTP error! status: ${response.status}`) }
  const data = await response.json()
  outputText.value = data.choices[0].message.content
  \<close>
\<close>

definition generateDescription_try :: "fetch_outcome \<Rightarrow> app_state \<Rightarrow> js_error + app_state" where
  "generateDescription_try outcome st =
     (case outcome of
        Rejected \<Rightarrow> Inl FetchRejected
      | Responded status body \<Rightarrow>
          if \<not> response_ok status then Inl (HttpError status)
          else
            (case body of
               None \<Rightarrow> Inl JsonRejected
             | Some data \<Rightarrow>
                 and_then (first_choice_content data) (\<lambda>content.
                   Inr (st\<lparr>outputText := content\<rparr>))))"

definition generateDescription_catch ::
  "js_error \<Rightarrow> app_state \<Rightarrow> js_error + app_state \<times> effect list" where
  "generateDescription_catch err st =
     Inr (st\<lparr>outputText := Str failure_message\<rparr>, [ConsoleError (js ''Error:'') err])"

definition generateDescription_resume ::
  "fetch_outcome \<Rightarrow> app_state \<Rightarrow> js_error option \<times> app_state \<times> effect list" where
  "generateDescription_resume outcome =
     try_catch_finally (generateDescription_try outcome) generateDescription_catch
       (\<lambda>st. st\<lparr>isLoading := False\<rparr>)"

text \<open>A whole run of \<open>generateDescription\<close> with nothing else running in between.\<close>

definition generateDescription ::
  "jsstring \<Rightarrow> (request \<Rightarrow> fetch_outcome) \<Rightarrow> app_state \<Rightarrow>
   js_error option \<times> app_state \<times> effect list" where
  "generateDescription origin net st =
     (case generateDescription_begin origin st of
        Returned st' effs \<Rightarrow> (None, st', effs)
      | Awaiting req st' \<Rightarrow>
          (case generateDescription_resume (net req) st' of
             (thrown, st'', effs) \<Rightarrow> (thrown, st'', Fetch req # effs)))"

section \<open>Vocabulary of the properties\<close>

text \<open>
  A catalog entry conforms to the interface \<open>Model\<close> when \<open>id\<close> and \<open>name\<close> are strings
  and \<open>description\<close> is a string or absent.
\<close>

fun is_string :: "jsval \<Rightarrow> bool" where
  "is_string (Str s) = True"
| "is_string v = False"

definition well_typed_model :: "Model \<Rightarrow> bool" where
  "well_typed_model m =
     (is_string (name m) \<and> is_string (model_id m) \<and>
      (is_string (description m) \<or> description m = Undefined))"

text \<open>
  A field contains \<open>f\<close> case-insensitively when it is a string whose lower-case form
  has the lower-case form of \<open>f\<close> as a substring.
\<close>

definition contains_ci :: "(jsstring \<Rightarrow> jsstring) \<Rightarrow> jsval \<Rightarrow> jsstring \<Rightarrow> bool" where
  "contains_ci toLowerCase v f =
     (case v of Str s \<Rightarrow> js_includes (toLowerCase s) (toLowerCase f) | _ \<Rightarrow> False)"

text \<open>
  An instance of \<open>toLowerCase\<close> for evaluating examples: it lowers the letters A to Z
  and leaves every other code unit alone, as the language does on ASCII text.
\<close>

definition ascii_toLowerCase :: "jsstring \<Rightarrow> jsstring" where
  "ascii_toLowerCase s = map (\<lambda>c. if 0x41 \<le> c \<and> c \<le> 0x5A then c + 0x20 else c) s"


definition non_empty_string :: "jsval \<Rightarrow> bool" where
  "non_empty_string v = (case v of Str s \<Rightarrow> s \<noteq> [] | _ \<Rightarrow> False)"

text \<open>
  How the name of a descriptor \<open>m\<close> follows from the catalog entry it was mapped from,
  with \<open>i\<close> the entry's id and \<open>n\<close> its name (\<open>undefined\<close> when absent): the id is
  copied; a name that is a non-empty string is copied, and so is any other truthy name;
  with the name absent, empty or otherwise falsy the id stands in for it; so a non-empty
  id gives a name that is truthy, and a non-empty string when the entry's name was a
  string or absent.
\<close>

definition name_rule :: "jsval \<Rightarrow> Model \<Rightarrow> bool" where
  "name_rule entry m =
     (\<exists>i n. get_prop entry (js ''id'') = Inr i \<and> get_prop entry (js ''name'') = Inr n \<and>
        model_id m = i \<and>
        (\<forall>s. n = Str s \<and> s \<noteq> [] \<longrightarrow> name m = Str s) \<and>
        (n = Undefined \<or> n = Str [] \<longrightarrow> name m = i) \<and>
        (truthy n \<longrightarrow> name m = n) \<and>
        (\<not> truthy n \<longrightarrow> name m = i) \<and>
        (non_empty_string i \<longrightarrow> truthy (name m)) \<and>
        (non_empty_string i \<and> (n = Undefined \<or> is_string n) \<longrightarrow> non_empty_string (name m)))"

subsection \<open>Concrete inputs\<close>

text \<open>
  The component right after start with an empty store, once the user has typed a text
  and an API key.
\<close>

definition example_state :: app_state where
  "example_state = (initial_state Map.empty)\<lparr>inputText := js ''Ace'', apiKey := js ''sk-123''\<rparr>"

definition example_origin :: jsstring where
  "example_origin = js ''http://localhost:5173''"

text \<open>
  The body \<open>{choices:[{message:{content:"- A \<emdash> b. http://x"}}]}\<close>; the dash is U+2014.
\<close>

definition example_content :: jsstring where
  "example_content =
     [0x2D, 0x20, 0x41, 0x20, 0x2014, 0x20, 0x62, 0x2E, 0x20, 0x68, 0x74, 0x74,
      0x70, 0x3A, 0x2F, 0x2F, 0x78]"

definition example_completion :: jsval where
  "example_completion =
     Obj [(js ''choices'', Arr [Obj [(js ''message'', Obj [(js ''content'', Str example_content)])]])]"

text \<open>
  The body \<open>{id:"gen-1",choices:[{index:0,message:{role:"assistant",content:" first "}},
  {index:1,message:{role:"assistant",content:"second"}}]}\<close>: two choices, and blanks
  around the content of the first.
\<close>

definition example_padded_content :: jsstring where
  "example_padded_content = [0x20, 0x66, 0x69, 0x72, 0x73, 0x74, 0x20]"

definition example_two_choices :: jsval where
  "example_two_choices =
     Obj [(js ''id'', Str (js ''gen-1'')),
          (js ''choices'',
           Arr [Obj [(js ''index'', Num 0),
                     (js ''message'',
                      Obj [(js ''role'', Str (js ''assistant'')),
                           (js ''content'', Str example_padded_content)])],
                Obj [(js ''index'', Num 1),
                     (js ''message'',
                      Obj [(js ''role'', Str (js ''assistant'')),
                           (js ''content'', Str (js ''second''))])]])]"

text \<open>
  The body \<open>{data:[{id:"openai/gpt-4o",name:"GPT-4o"},{id:"x/y"},{id:"z",name:""}]}\<close>.
\<close>

definition example_entries :: "jsval list" where
  "example_entries =
     [Obj [(js ''id'', Str (js ''openai/gpt-4o'')), (js ''name'', Str (js ''GPT-4o''))],
      Obj [(js ''id'', Str (js ''x/y''))],
      Obj [(js ''id'', Str (js ''z'')), (js ''name'', Str [])]]"

definition example_catalog :: jsval where
  "example_catalog = Obj [(js ''data'', Arr example_entries)]"

section \<open>Basic facts\<close>

lemma js_Nil: "js [] = []"
  by (simp add: js_def)

lemma js_Cons: "js (c # cs) = of_nat (of_char c) # js cs"
  by (simp add: js_def)

lemma trim_Nil: "trim [] = []"
  by (simp add: trim_def)

lemma js_includes_Nil: "js_includes s []"
  by (cases s) (simp_all add: js_includes_def)

lemma and_then_Inr_iff:
  "and_then r f = Inr y \<longleftrightarrow> (\<exists>v. r = Inr v \<and> f v = Inr y)"
  by (cases r) (simp_all add: and_then_def)

lemma and_then_Inr: "and_then (Inr v) f = f v"
  by (simp add: and_then_def)


lemma is_string_iff: "is_string v \<longleftrightarrow> (\<exists>s. v = Str s)"
  by (cases v) simp_all

section \<open>Settings store: properties\<close>

text \<open>
  C8. Whatever the store holds, and in particular after an API key \<open>k\<close> such as
  \<open>sk-123\<close> was saved, saving the empty string as API key leaves no entry under
  \<open>openrouter_api_key\<close>: the key is removed, not stored as an empty string, and no other
  entry of the store changes.
\<close>

theorem saveApiKey_empty_removes:
  "getItem (saveApiKey [] store) (js ''openrouter_api_key'') = None
   \<and> js ''openrouter_api_key'' \<notin> dom (saveApiKey [] (saveApiKey k store))
   \<and> saveApiKey [] (saveApiKey k store) = removeItem (js ''openrouter_api_key'') store"
  by (auto simp add: saveApiKey_def trim_Nil getItem_def setItem_def removeItem_def)

section \<open>Model filter: properties\<close>

text \<open>
  C4. For every catalog \<open>C\<close>, with the empty filter string \<open>filteredModels\<close> returns
  \<open>C\<close> itself: nothing is removed, reordered or evaluated.
\<close>

theorem filteredModels_empty_filter_identity:
  "filteredModels toLowerCase (st\<lparr>availableModels := C, modelFilter := []\<rparr>) = Inr C"
  by (simp add: filteredModels_def)

text \<open>What \<open>filter\<close> returns is a subsequence whose elements passed the predicate.\<close>

lemma filter_js_sound:
  "filter_js p xs = Inr ys \<Longrightarrow> subseq ys xs \<and> (\<forall>y\<in>set ys. p y = Inr True)"
proof (induction xs arbitrary: ys)
  case Nil
  then show ?case by simp
next
  case (Cons x xs)
  from Cons.prems obtain b zs where b: "p x = Inr b" and zs: "filter_js p xs = Inr zs"
    and ys: "ys = (if b then x # zs else zs)"
    by (auto simp add: and_then_Inr_iff)
  from Cons.IH [OF zs] have ih: "subseq zs xs" "\<forall>y\<in>set zs. p y = Inr True" by simp_all
  show ?case
  proof (cases b)
    case True
    with b ys ih show ?thesis by simp
  next
    case False
    with ys ih show ?thesis by (simp add: list_emb_Cons)
  qed
qed

text \<open>It returns whenever the predicate does not throw on any element.\<close>

lemma filter_js_total:
  "\<forall>x\<in>set xs. \<exists>b. p x = Inr b \<Longrightarrow> \<exists>ys. filter_js p xs = Inr ys"
proof (induction xs)
  case Nil
  then show ?case by simp
next
  case (Cons x xs)
  then obtain b where b: "p x = Inr b" by auto
  from Cons obtain zs where zs: "filter_js p xs = Inr zs" by auto
  show ?case by (simp add: b zs and_then_Inr)
qed

lemma model_matches_total:
  assumes "well_typed_model m"
  shows "\<exists>b. model_matches lc f m = Inr b"
proof -
  from assms obtain n i where n: "name m = Str n" and i: "model_id m = Str i"
    by (auto simp add: well_typed_model_def is_string_iff)
  from assms have d: "description m = Undefined \<or> (\<exists>d. description m = Str d)"
    by (auto simp add: well_typed_model_def is_string_iff)
  then show ?thesis
    by (auto simp add: model_matches_def to_lower_def n i and_then_Inr)
qed

lemma model_matches_True:
  assumes "model_matches lc (lc f) m = Inr True"
  shows "contains_ci lc (name m) f \<or> contains_ci lc (model_id m) f
         \<or> contains_ci lc (description m) f"
  using assms
  by (auto simp add: model_matches_def to_lower_def contains_ci_def and_then_Inr_iff
      split: jsval.splits if_splits)

text \<open>On any catalog, conforming or not: what is returned is a subsequence of it.\<close>

lemma filteredModels_returns_subseq:
  assumes "filteredModels toLowerCase st = Inr R"
  shows "subseq R (availableModels st)"
proof (cases "modelFilter st = []")
  case True
  with assms show ?thesis by (simp add: filteredModels_def)
next
  case False
  with assms show ?thesis by (simp add: filteredModels_def filter_js_sound)
qed

text \<open>
  C5. For every catalog that conforms to the interface \<open>Model\<close> and every filter string
  \<open>f\<close>, \<open>filteredModels\<close> returns a list \<open>R\<close> that is a subsequence of the catalog (the
  input order is kept), and every element of \<open>R\<close> contains \<open>f\<close> case-insensitively in its
  name, its id or its description. \<open>toLowerCase\<close> is any function that maps the empty
  string to itself, as the language's does.
\<close>

theorem filteredModels_subseq_matching:
  assumes lc: "toLowerCase [] = []"
    and wt: "\<forall>m\<in>set (availableModels st). well_typed_model m"
  shows "\<exists>R. filteredModels toLowerCase st = Inr R \<and> subseq R (availableModels st) \<and>
           (\<forall>m\<in>set R. contains_ci toLowerCase (name m) (modelFilter st)
                      \<or> contains_ci toLowerCase (model_id m) (modelFilter st)
                      \<or> contains_ci toLowerCase (description m) (modelFilter st))"
proof (cases "modelFilter st = []")
  case True
  have "contains_ci toLowerCase (name m) []" if "m \<in> set (availableModels st)" for m
  proof -
    from wt that obtain n where "name m = Str n"
      by (auto simp add: well_typed_model_def is_string_iff)
    then show ?thesis by (simp add: contains_ci_def lc js_includes_Nil)
  qed
  with True show ?thesis by (simp add: filteredModels_def)
next
  case False
  let ?p = "model_matches toLowerCase (toLowerCase (modelFilter st))"
  from wt have "\<forall>m\<in>set (availableModels st). \<exists>b. ?p m = Inr b"
    by (simp add: model_matches_total)
  then obtain R where R: "filter_js ?p (availableModels st) = Inr R"
    using filter_js_total by blast
  from filter_js_sound [OF R] have "subseq R (availableModels st)"
    and "\<forall>m\<in>set R. ?p m = Inr True" by simp_all
  with False R show ?thesis
    by (auto simp add: filteredModels_def dest: model_matches_True)
qed

theorem filteredModels_subseq_matching_witness:
  "ascii_toLowerCase [] = [] \<and>
   list_all well_typed_model (availableModels ((initial_state Map.empty)
        \<lparr>availableModels := fallback_models, modelFilter := js ''GPT''\<rparr>)) \<and>
   (\<exists>R. filteredModels ascii_toLowerCase ((initial_state Map.empty)
        \<lparr>availableModels := fallback_models, modelFilter := js ''GPT''\<rparr>) = Inr R \<and>
        subseq R fallback_models \<and>
        (\<forall>m\<in>set R. contains_ci ascii_toLowerCase (name m) (js ''GPT'')
                   \<or> contains_ci ascii_toLowerCase (model_id m) (js ''GPT'')
                   \<or> contains_ci ascii_toLowerCase (description m) (js ''GPT'')))"
proof -
  let ?st = "(initial_state Map.empty)
      \<lparr>availableModels := fallback_models, modelFilter := js ''GPT''\<rparr>"
  have h1: "ascii_toLowerCase [] = []" by (simp add: ascii_toLowerCase_def)
  have h2: "\<forall>m\<in>set (availableModels ?st). well_typed_model m"
    by (simp add: fallback_models_def well_typed_model_def)
  from filteredModels_subseq_matching [of ascii_toLowerCase ?st, OF h1 h2] h1 h2
  show ?thesis by (simp add: list_all_iff)
qed

section \<open>Model catalog client: properties\<close>

lemma get_prop_total:
  "entry \<noteq> Null \<Longrightarrow> entry \<noteq> Undefined \<Longrightarrow> \<exists>v. get_prop entry k = Inr v"
  by (cases entry) simp_all

lemma map_model_total:
  assumes "entry \<noteq> Null" "entry \<noteq> Undefined"
  shows "\<exists>m. map_model entry = Inr m"
proof -
  from assms get_prop_total obtain i n d c p where
    "get_prop entry (js ''id'') = Inr i" "get_prop entry (js ''name'') = Inr n"
    "get_prop entry (js ''description'') = Inr d"
    "get_prop entry (js ''context_length'') = Inr c"
    "get_prop entry (js ''pricing'') = Inr p"
    by metis
  then show ?thesis by (simp add: map_model_def and_then_Inr)
qed

lemma map_model_name_rule:
  assumes "map_model entry = Inr m"
  shows "name_rule entry m"
proof -
  from assms obtain i n where i: "get_prop entry (js ''id'') = Inr i"
    and n: "get_prop entry (js ''name'') = Inr n"
    and mi: "model_id m = i" and mn: "name m = (if truthy n then n else i)"
    by (auto simp add: map_model_def and_then_Inr_iff)
  have "(\<forall>s. n = Str s \<and> s \<noteq> [] \<longrightarrow> name m = Str s) \<and>
        (n = Undefined \<or> n = Str [] \<longrightarrow> name m = i) \<and>
        (truthy n \<longrightarrow> name m = n) \<and>
        (\<not> truthy n \<longrightarrow> name m = i) \<and>
        (non_empty_string i \<longrightarrow> truthy (name m)) \<and>
        (non_empty_string i \<and> (n = Undefined \<or> is_string n) \<longrightarrow> non_empty_string (name m))"
    unfolding mn by (cases n; cases i) (auto simp add: non_empty_string_def)
  with i n mi show ?thesis unfolding name_rule_def by blast
qed

lemma map_js_nth:
  "map_js f xs = Inr ys \<Longrightarrow>
   length ys = length xs \<and> (\<forall>k<length xs. f (xs ! k) = Inr (ys ! k))"
proof (induction xs arbitrary: ys)
  case Nil
  then show ?case by simp
next
  case (Cons x xs)
  from Cons.prems obtain y zs where y: "f x = Inr y" and zs: "map_js f xs = Inr zs"
    and ys: "ys = y # zs"
    by (auto simp add: and_then_Inr_iff)
  from Cons.IH [OF zs] y ys show ?case
    by (auto simp add: nth_Cons split: nat.splits)
qed

lemma map_js_total:
  "\<forall>x\<in>set xs. \<exists>y. f x = Inr y \<Longrightarrow> \<exists>ys. map_js f xs = Inr ys"
proof (induction xs)
  case Nil
  then show ?case by simp
next
  case (Cons x xs)
  then obtain y where y: "f x = Inr y" by auto
  from Cons obtain zs where zs: "map_js f xs = Inr zs" by auto
  show ?case by (simp add: y zs and_then_Inr)
qed

text \<open>The three ways \<open>loadModels\<close> ends, by what the \<open>try\<close> block did.\<close>

lemma loadModels_resume_success:
  assumes "response_ok status" "get_prop data (js ''data'') = Inr (Arr entries)"
    "map_js map_model entries = Inr ms"
  shows "loadModels_resume (Responded status (Some data)) st =
         (None, st\<lparr>availableModels := ms, isLoadingModels := False\<rparr>, [])"
  using assms
  by (simp add: loadModels_resume_def try_catch_finally_def loadModels_try_def and_then_Inr)

lemma loadModels_resume_thrown:
  assumes "loadModels_try outcome st = Inl err"
  shows "loadModels_resume outcome st =
         (None, st\<lparr>availableModels := fallback_models, isLoadingModels := False\<rparr>,
          [ConsoleError load_error_message err])"
  using assms
  by (simp add: loadModels_resume_def try_catch_finally_def loadModels_catch_def)

text \<open>
  A response that is not ok passes the \<open>if\<close> without a throw: the \<open>catch\<close> block does
  not run and the catalog stays as it was.
\<close>

lemma loadModels_resume_not_ok:
  assumes "\<not> response_ok status"
  shows "loadModels_resume (Responded status body) st =
         (None, st\<lparr>isLoadingModels := False\<rparr>, [])"
  using assms
  by (simp add: loadModels_resume_def try_catch_finally_def loadModels_try_def)

text \<open>A rejected fetch and an unreadable body do reach the fallback.\<close>

lemma loadModels_resume_rejected:
  "loadModels_resume Rejected st =
   (None, st\<lparr>availableModels := fallback_models, isLoadingModels := False\<rparr>,
    [ConsoleError load_error_message FetchRejected])"
  by (simp add: loadModels_resume_thrown loadModels_try_def)

lemma loadModels_resume_unreadable:
  "response_ok status \<Longrightarrow>
   loadModels_resume (Responded status None) st =
   (None, st\<lparr>availableModels := fallback_models, isLoadingModels := False\<rparr>,
    [ConsoleError load_error_message JsonRejected])"
  by (simp add: loadModels_resume_thrown loadModels_try_def)

text \<open>
  C1. At the failing input: the component starts with an empty store and the catalog
  fetch is answered with HTTP 500. \<open>loadModels\<close> lets no exception out, but the catalog
  it leaves is the empty list it started with, not the two-entry fallback list.
\<close>

theorem loadModels_http_500_keeps_empty_catalog:
  "loadModels (\<lambda>req. Responded 500 None) (initial_state Map.empty)
     = (None, initial_state Map.empty, [Fetch models_request])
   \<and> availableModels (initial_state Map.empty) = []
   \<and> availableModels (initial_state Map.empty) \<noteq> fallback_models"
  by (simp add: loadModels_def loadModels_begin_def loadModels_resume_not_ok response_ok_def
      initial_state_def fallback_models_def)

text \<open>
  C9. For a fetch answered with an ok status and a body whose \<open>data\<close> is an array of
  entries, none of them \<open>null\<close>: \<open>loadModels\<close> replaces the catalog by one descriptor for
  each entry, in order, and every descriptor follows \<open>name_rule\<close>: its name is the
  entry's name when that is present and non-empty, the entry's id when the name is
  absent or empty, and hence non-empty whenever the id is non-empty.
\<close>

theorem loadModels_maps_names:
  assumes "response_ok status"
    and "get_prop data (js ''data'') = Inr (Arr entries)"
    and "\<forall>entry\<in>set entries. entry \<noteq> Null \<and> entry \<noteq> Undefined"
  shows "\<exists>ms. loadModels_resume (Responded status (Some data)) st =
                (None, st\<lparr>availableModels := ms, isLoadingModels := False\<rparr>, [])
            \<and> length ms = length entries
            \<and> (\<forall>k<length entries. map_model (entries ! k) = Inr (ms ! k)
                                   \<and> name_rule (entries ! k) (ms ! k))"
proof -
  from assms(3) have "\<forall>entry\<in>set entries. \<exists>m. map_model entry = Inr m"
    by (simp add: map_model_total)
  then obtain ms where ms: "map_js map_model entries = Inr ms"
    using map_js_total by blast
  from map_js_nth [OF ms] have len: "length ms = length entries"
    and nth: "\<forall>k<length entries. map_model (entries ! k) = Inr (ms ! k)" by simp_all
  from nth have "\<forall>k<length entries. name_rule (entries ! k) (ms ! k)"
    by (simp add: map_model_name_rule)
  with loadModels_resume_success [OF assms(1,2) ms] len nth show ?thesis by blast
qed

lemma example_entries_mapped:
  "map_js map_model example_entries =
   Inr [\<lparr>model_id = Str (js ''openai/gpt-4o''), name = Str (js ''GPT-4o''),
         description = Undefined, context_length = Undefined, pricing = Undefined\<rparr>,
        \<lparr>model_id = Str (js ''x/y''), name = Str (js ''x/y''),
         description = Undefined, context_length = Undefined, pricing = Undefined\<rparr>,
        \<lparr>model_id = Str (js ''z''), name = Str (js ''z''),
         description = Undefined, context_length = Undefined, pricing = Undefined\<rparr>]"
  by (simp add: example_entries_def map_model_def and_then_def js_Nil js_Cons)

theorem loadModels_maps_names_witness:
  "response_ok 200
   \<and> get_prop example_catalog (js ''data'') = Inr (Arr example_entries)
   \<and> list_all (\<lambda>entry. entry \<noteq> Null \<and> entry \<noteq> Undefined) example_entries
   \<and> (\<exists>ms. loadModels_resume (Responded 200 (Some example_catalog)) example_state =
              (None, example_state\<lparr>availableModels := ms, isLoadingModels := False\<rparr>, [])
          \<and> length ms = length example_entries
          \<and> (\<forall>k<length example_entries. map_model (example_entries ! k) = Inr (ms ! k)
                                         \<and> name_rule (example_entries ! k) (ms ! k)))
   \<and> map (name) (availableModels (fst (snd
        (loadModels_resume (Responded 200 (Some example_catalog)) example_state))))
      = [Str (js ''GPT-4o''), Str (js ''x/y''), Str (js ''z'')]"
proof -
  have h1: "response_ok 200" by (simp add: response_ok_def)
  have h2: "get_prop example_catalog (js ''data'') = Inr (Arr example_entries)"
    by (simp add: example_catalog_def)
  have h3: "\<forall>entry\<in>set example_entries. entry \<noteq> Null \<and> entry \<noteq> Undefined"
    by (simp add: example_entries_def)
  have ev: "map (name) (availableModels (fst (snd
        (loadModels_resume (Responded 200 (Some example_catalog)) example_state))))
      = [Str (js ''GPT-4o''), Str (js ''x/y''), Str (js ''z'')]"
    by (simp add: loadModels_resume_success [OF h1 h2 example_entries_mapped])
  from h3 have h3': "list_all (\<lambda>entry. entry \<noteq> Null \<and> entry \<noteq> Undefined) example_entries"
    by (simp add: list_all_iff)
  from loadModels_maps_names [of 200 example_catalog example_entries example_state, OF h1 h2 h3]
    h1 h2 h3' ev
  show ?thesis by blast
qed

section \<open>Completion client: properties\<close>

lemma getSubstitution_no_dollar:
  "0x24 \<notin> set t \<Longrightarrow> getSubstitution m s p t = t"
  by (induction m s p t rule: getSubstitution.induct) auto

lemma stringIndexOf_Some:
  "stringIndexOf s t = Some p \<Longrightarrow> p + length t \<le> length s \<and> take (length t) (drop p s) = t"
proof (induction s arbitrary: p)
  case Nil
  then show ?case by (simp split: if_splits)
next
  case (Cons c s)
  show ?case
  proof (cases "prefix t (c # s)")
    case True
    with Cons.prems have p: "p = 0" by simp
    from True have "length t \<le> length (c # s)" by (rule prefix_length_le)
    moreover from True have "take (length t) (c # s) = t"
      by (metis append_eq_conv_conj prefixE)
    ultimately show ?thesis using p by simp
  next
    case False
    with Cons.prems obtain q where q: "stringIndexOf s t = Some q" and p: "p = Suc q"
      by auto
    from Cons.IH [OF q] p show ?thesis by simp
  qed
qed

text \<open>
  What the code does get right: an input text without the code unit \<open>$\<close> replaces the
  first \<open>{input}\<close> of the template and nothing else changes.
\<close>

lemma rendered_prompt_verbatim:
  assumes "stringIndexOf (systemPrompt st) (js ''{input}'') = Some p"
    and "0x24 \<notin> set (inputText st)"
  shows "rendered_prompt st =
         take p (systemPrompt st) @ inputText st
           @ drop (p + length (js ''{input}'')) (systemPrompt st)"
  using assms
  by (simp add: rendered_prompt_def js_replace_def getSubstitution_no_dollar)

lemma defaultPrompt_token: "stringIndexOf defaultPrompt (js ''{input}'') = Some 414"
  by (simp add: defaultPrompt_def js_Nil js_Cons)

lemma example_state_valid:
  "trim (inputText (example_state\<lparr>inputText := t\<rparr>)) = trim t"
  "trim (apiKey (example_state\<lparr>inputText := t\<rparr>)) \<noteq> []"
  "trim (inputText example_state) \<noteq> []"
  "trim (apiKey example_state) \<noteq> []"
  by (simp_all add: example_state_def trim_def is_white_space_def js_Nil js_Cons)

lemma begin_valid:
  assumes "trim (inputText st) \<noteq> []" "trim (apiKey st) \<noteq> []"
  shows "generateDescription_begin origin st =
         Awaiting (completion_request origin (st\<lparr>isLoading := True, outputText := Str []\<rparr>))
           (st\<lparr>isLoading := True, outputText := Str []\<rparr>)"
  using assms by (simp add: generateDescription_begin_def Let_def)

text \<open>
  C2. At the failing input: the default template (one \<open>{input}\<close>, at index 414, its last
  seven code units) and the input text \<open>$&\<close>. The validation passes and the request is
  issued, but the prompt it carries is the template itself, with \<open>{input}\<close> still in
  place, not the template with \<open>{input}\<close> replaced by \<open>$&\<close>. Likewise the input text
  \<open>$$x^2$$\<close> reaches the template \<open>Text: {input}\<close> as \<open>$x^2$\<close>.
\<close>

theorem generateDescription_prompt_expands_dollar:
  "generateDescription_begin example_origin (example_state\<lparr>inputText := js ''$&''\<rparr>)
     = Awaiting
         (completion_request example_origin
            (example_state\<lparr>inputText := js ''$&'', isLoading := True, outputText := Str []\<rparr>))
         (example_state\<lparr>inputText := js ''$&'', isLoading := True, outputText := Str []\<rparr>)
   \<and> systemPrompt (example_state\<lparr>inputText := js ''$&'', isLoading := True, outputText := Str []\<rparr>)
       = defaultPrompt
   \<and> stringIndexOf defaultPrompt (js ''{input}'') = Some 414
   \<and> length defaultPrompt = 421
   \<and> rendered_prompt
        (example_state\<lparr>inputText := js ''$&'', isLoading := True, outputText := Str []\<rparr>)
       = defaultPrompt
   \<and> defaultPrompt \<noteq> take 414 defaultPrompt @ js ''$&'' @ drop 421 defaultPrompt
   \<and> rendered_prompt
        (example_state\<lparr>systemPrompt := js ''Text: {input}'', inputText := js ''$$x^2$$''\<rparr>)
       = js ''Text: $x^2$''"
proof -
  let ?st = "example_state\<lparr>inputText := js ''$&'', isLoading := True, outputText := Str []\<rparr>"
  have b: "generateDescription_begin example_origin (example_state\<lparr>inputText := js ''$&''\<rparr>)
           = Awaiting (completion_request example_origin ?st) ?st"
  proof -
    have "trim (js ''$&'') \<noteq> []"
      by (simp add: trim_def is_white_space_def js_Nil js_Cons)
    then show ?thesis by (simp add: begin_valid example_state_valid)
  qed
  have sp: "systemPrompt ?st = defaultPrompt"
    by (simp add: example_state_def initial_state_def getItem_or_def getItem_def)
  have len: "length defaultPrompt = 421"
    by (simp add: defaultPrompt_def)
  have r: "rendered_prompt ?st = defaultPrompt"
  proof -
    have "rendered_prompt ?st
          = take 414 defaultPrompt @ js ''{input}'' @ drop 421 defaultPrompt"
      by (simp add: rendered_prompt_def js_replace_def sp defaultPrompt_token)
         (simp add: js_Nil js_Cons)
    also have "\<dots> = defaultPrompt"
      by (simp add: defaultPrompt_def js_Nil js_Cons)
    finally show ?thesis .
  qed
  have ne: "defaultPrompt \<noteq> take 414 defaultPrompt @ js ''$&'' @ drop 421 defaultPrompt"
    by (simp add: defaultPrompt_def js_Nil js_Cons)
  have short: "rendered_prompt
        (example_state\<lparr>systemPrompt := js ''Text: {input}'', inputText := js ''$$x^2$$''\<rparr>)
       = js ''Text: $x^2$''"
    by (simp add: rendered_prompt_def js_replace_def js_Nil js_Cons)
  from b sp defaultPrompt_token len r ne short show ?thesis by blast
qed

text \<open>
  C3. When the input text or the API key is empty after trimming, \<open>generateDescription\<close>
  ends before its first \<open>await\<close>: its only effect is the alert with the validation
  message, no request is issued, and the state (output text and loading flag included)
  is the one it started in.
\<close>

theorem generateDescription_validation_error:
  assumes "trim (inputText st) = [] \<or> trim (apiKey st) = []"
  shows "generateDescription_begin origin st = Returned st [Alert validation_message]
         \<and> generateDescription origin net st = (None, st, [Alert validation_message])"
  using assms by (auto simp add: generateDescription_def generateDescription_begin_def)

theorem generateDescription_validation_error_witness:
  "(trim (inputText (example_state\<lparr>inputText := [0x20, 0xA, 0x9]\<rparr>)) = []
     \<or> trim (apiKey (example_state\<lparr>inputText := [0x20, 0xA, 0x9]\<rparr>)) = [])
   \<and> generateDescription_begin example_origin (example_state\<lparr>inputText := [0x20, 0xA, 0x9]\<rparr>)
      = Returned (example_state\<lparr>inputText := [0x20, 0xA, 0x9]\<rparr>) [Alert validation_message]
   \<and> generateDescription example_origin (\<lambda>req. Responded 200 (Some example_completion))
        (example_state\<lparr>inputText := [0x20, 0xA, 0x9]\<rparr>)
      = (None, example_state\<lparr>inputText := [0x20, 0xA, 0x9]\<rparr>, [Alert validation_message])"
proof -
  let ?st = "example_state\<lparr>inputText := [0x20, 0xA, 0x9]\<rparr>"
  have h: "trim (inputText ?st) = [] \<or> trim (apiKey ?st) = []"
    by (simp add: trim_def is_white_space_def)
  from generateDescription_validation_error
         [of ?st example_origin "\<lambda>req. Responded 200 (Some example_completion)", OF h] h
  show ?thesis by simp
qed

lemma generateDescription_resume_success:
  assumes "response_ok status" "first_choice_content data = Inr v"
  shows "generateDescription_resume (Responded status (Some data)) st =
         (None, st\<lparr>outputText := v, isLoading := False\<rparr>, [])"
  using assms
  by (simp add: generateDescription_resume_def try_catch_finally_def generateDescription_try_def
      and_then_Inr)




text \<open>
  The shape of a body, said without the code's reader: the body is an object whose
  property \<open>choices\<close> is an array, the first element of the array is an object whose
  property \<open>message\<close> is an object, and that object's property \<open>content\<close> is the string
  \<open>s\<close>. On such a body \<open>data.choices[0].message.content\<close> evaluates to \<open>s\<close>.
\<close>

lemma first_choice_content_of_shape:
  assumes "map_of props (js ''choices'') = Some (Arr (Obj choice # others))"
    and "map_of choice (js ''message'') = Some (Obj message)"
    and "map_of message (js ''content'') = Some (Str s)"
  shows "first_choice_content (Obj props) = Inr (Str s)"
  using assms
  by (simp add: first_choice_content_def first_choice_message_def and_then_Inr)

text \<open>
  C6. When the validation passes and the request is answered with an ok status and a
  body that is an object whose \<open>choices\<close> is an array, whose first choice is an object
  with a \<open>message\<close> object, whose \<open>content\<close> is the string \<open>s\<close> (whatever other
  properties and further choices the body has), then \<open>generateDescription\<close> ends with
  the output text exactly \<open>s\<close>, code unit for code unit, the loading flag off and no
  exception.
\<close>

theorem generateDescription_surfaces_content:
  assumes "trim (inputText st) \<noteq> []" and "trim (apiKey st) \<noteq> []"
    and "net (completion_request origin (st\<lparr>isLoading := True, outputText := Str []\<rparr>))
         = Responded status (Some (Obj props))"
    and "response_ok status"
    and "map_of props (js ''choices'') = Some (Arr (Obj choice # others))"
    and "map_of choice (js ''message'') = Some (Obj message)"
    and "map_of message (js ''content'') = Some (Str s)"
  shows "generateDescription origin net st =
         (None, st\<lparr>outputText := Str s, isLoading := False\<rparr>,
          [Fetch (completion_request origin (st\<lparr>isLoading := True, outputText := Str []\<rparr>))])"
proof -
  from assms(5-7) have "first_choice_content (Obj props) = Inr (Str s)"
    by (rule first_choice_content_of_shape)
  with assms(1-4) show ?thesis
    by (simp add: generateDescription_def begin_valid generateDescription_resume_success)
qed

text \<open>
  At the response of the specification the output is \<open>- A \<emdash> b. http://x\<close>; at the
  body with two choices it is the content of the first, with its blanks: \<open> first \<close>.
\<close>

theorem generateDescription_surfaces_content_witness:
  "trim (inputText example_state) \<noteq> [] \<and> trim (apiKey example_state) \<noteq> []
   \<and> response_ok 200
   \<and> example_completion
       = Obj [(js ''choices'', Arr [Obj [(js ''message'', Obj [(js ''content'', Str example_content)])]])]
   \<and> generateDescription example_origin (\<lambda>req. Responded 200 (Some example_completion))
        example_state
      = (None,
         example_state\<lparr>outputText :=
            Str [0x2D, 0x20, 0x41, 0x20, 0x2014, 0x20, 0x62, 0x2E, 0x20, 0x68, 0x74, 0x74,
                 0x70, 0x3A, 0x2F, 0x2F, 0x78],
          isLoading := False\<rparr>,
         [Fetch (completion_request example_origin
                   (example_state\<lparr>isLoading := True, outputText := Str []\<rparr>))])
   \<and> generateDescription example_origin (\<lambda>req. Responded 200 (Some example_two_choices))
        example_state
      = (None,
         example_state\<lparr>outputText := Str [0x20, 0x66, 0x69, 0x72, 0x73, 0x74, 0x20],
          isLoading := False\<rparr>,
         [Fetch (completion_request example_origin
                   (example_state\<lparr>isLoading := True, outputText := Str []\<rparr>))])"
proof -
  let ?req = "completion_request example_origin
                (example_state\<lparr>isLoading := True, outputText := Str []\<rparr>)"
  note v = example_state_valid(3) example_state_valid(4)
  have h: "response_ok 200" by (simp add: response_ok_def)
  have one: "generateDescription example_origin (\<lambda>req. Responded 200 (Some example_completion))
               example_state
             = (None, example_state\<lparr>outputText := Str example_content, isLoading := False\<rparr>,
                [Fetch ?req])"
  proof (rule generateDescription_surfaces_content [OF v _ h])
    show "(\<lambda>req. Responded 200 (Some example_completion)) ?req
          = Responded 200 (Some (Obj [(js ''choices'',
              Arr [Obj [(js ''message'', Obj [(js ''content'', Str example_content)])]])]))"
      by (simp add: example_completion_def)
    show "map_of [(js ''choices'',
              Arr [Obj [(js ''message'', Obj [(js ''content'', Str example_content)])]])]
            (js ''choices'')
          = Some (Arr (Obj [(js ''message'', Obj [(js ''content'', Str example_content)])] # []))"
      by simp
    show "map_of [(js ''message'', Obj [(js ''content'', Str example_content)])] (js ''message'')
          = Some (Obj [(js ''content'', Str example_content)])"
      by simp
    show "map_of [(js ''content'', Str example_content)] (js ''content'')
          = Some (Str example_content)"
      by simp
  qed
  have two: "generateDescription example_origin (\<lambda>req. Responded 200 (Some example_two_choices))
               example_state
             = (None,
                example_state\<lparr>outputText := Str example_padded_content, isLoading := False\<rparr>,
                [Fetch ?req])"
  proof (rule generateDescription_surfaces_content [OF v _ h])
    show "(\<lambda>req. Responded 200 (Some example_two_choices)) ?req
          = Responded 200 (Some (Obj [(js ''id'', Str (js ''gen-1'')),
              (js ''choices'',
               Arr [Obj [(js ''index'', Num 0),
                         (js ''message'',
                          Obj [(js ''role'', Str (js ''assistant'')),
                               (js ''content'', Str example_padded_content)])],
                    Obj [(js ''index'', Num 1),
                         (js ''message'',
                          Obj [(js ''role'', Str (js ''assistant'')),
                               (js ''content'', Str (js ''second''))])]])]))"
      by (simp add: example_two_choices_def)
    show "map_of [(js ''id'', Str (js ''gen-1'')),
              (js ''choices'',
               Arr [Obj [(js ''index'', Num 0),
                         (js ''message'',
                          Obj [(js ''role'', Str (js ''assistant'')),
                               (js ''content'', Str example_padded_content)])],
                    Obj [(js ''index'', Num 1),
                         (js ''message'',
                          Obj [(js ''role'', Str (js ''assistant'')),
                               (js ''content'', Str (js ''second''))])]])]
            (js ''choices'')
          = Some (Arr (Obj [(js ''index'', Num 0),
                         (js ''message'',
                          Obj [(js ''role'', Str (js ''assistant'')),
                               (js ''content'', Str example_padded_content)])]
                       # [Obj [(js ''index'', Num 1),
                         (js ''message'',
                          Obj [(js ''role'', Str (js ''assistant'')),
                               (js ''content'', Str (js ''second''))])]]))"
      by (simp add: js_Nil js_Cons)
    show "map_of [(js ''index'', Num 0),
                  (js ''message'',
                   Obj [(js ''role'', Str (js ''assistant'')),
                        (js ''content'', Str example_padded_content)])] (js ''message'')
          = Some (Obj [(js ''role'', Str (js ''assistant'')),
                       (js ''content'', Str example_padded_content)])"
      by (simp add: js_Nil js_Cons)
    show "map_of [(js ''role'', Str (js ''assistant'')),
                  (js ''content'', Str example_padded_content)] (js ''content'')
          = Some (Str example_padded_content)"
      by (simp add: js_Nil js_Cons)
  qed
  from v h one two show ?thesis
    by (simp add: example_content_def example_padded_content_def example_completion_def)
qed



text \<open>
  The catch block is reached by a throw only. A body whose first choice has a message
  without \<open>content\<close> makes nothing throw: the output text becomes \<open>undefined\<close>.
\<close>

lemma generateDescription_resume_missing_content:
  assumes "response_ok status"
  shows "generateDescription_resume
           (Responded status (Some (Obj [(js ''choices'', Arr [Obj [(js ''message'', Obj [])]])]))) st
         = (None, st\<lparr>outputText := Undefined, isLoading := False\<rparr>, [])"
proof -
  have "first_choice_content (Obj [(js ''choices'', Arr [Obj [(js ''message'', Obj [])]])])
        = Inr Undefined"
    by (simp add: first_choice_content_def first_choice_message_def and_then_def)
  with assms show ?thesis by (simp add: generateDescription_resume_success)
qed

text \<open>
  C10. When the validation passes, \<open>generateDescription\<close> reaches its first \<open>await\<close>
  with the request issued from a state in which the output text is already the empty
  string (and the loading flag is on); and however the fetch ends, in whatever state
  the function is resumed, it leaves the loading flag off.
\<close>

theorem generateDescription_resets_output_then_clears_loading:
  assumes "trim (inputText st) \<noteq> []" and "trim (apiKey st) \<noteq> []"
  shows "\<exists>req st'. generateDescription_begin origin st = Awaiting req st'
           \<and> req = completion_request origin st'
           \<and> outputText st' = Str [] \<and> isLoading st'
           \<and> (\<forall>outcome st''.
                 isLoading (fst (snd (generateDescription_resume outcome st''))) = False)
           \<and> isLoading (fst (snd (generateDescription origin net st))) = False"
proof -
  have r: "isLoading (fst (snd (generateDescription_resume outcome st''))) = False"
    for outcome st''
    by (simp add: generateDescription_resume_def try_catch_finally_def
        generateDescription_catch_def split: sum.splits prod.splits)
  from assms r show ?thesis
    by (simp add: begin_valid generateDescription_def case_prod_beta)
qed

theorem generateDescription_resets_output_then_clears_loading_witness:
  "trim (inputText example_state) \<noteq> [] \<and> trim (apiKey example_state) \<noteq> []
   \<and> (\<exists>req st'. generateDescription_begin example_origin example_state = Awaiting req st'
           \<and> req = completion_request example_origin st'
           \<and> outputText st' = Str [] \<and> isLoading st'
           \<and> (\<forall>outcome st''.
                 isLoading (fst (snd (generateDescription_resume outcome st''))) = False)
           \<and> isLoading (fst (snd (generateDescription example_origin
                 (\<lambda>req. Responded 200 (Some example_completion)) example_state))) = False)"
  using generateDescription_resets_output_then_clears_loading
          [OF example_state_valid(3) example_state_valid(4), of example_origin
            "\<lambda>req. Responded 200 (Some example_completion)"]
    example_state_valid(3) example_state_valid(4)
  by blast

end
